theory Spec2Isabelle
  imports Main "HOL-Library.List_Lexorder" "HOL-Library.Char_ord" "HOL-Library.AList"
begin

section \<open>The Python library functions that custom\_shelf.py calls\<close>

text \<open>
  Exceptions are values. \<open>ReUnsupported\<close> is not a Python exception: it marks a regular
  expression built from a tool name that lies outside the fragment of \<open>re\<close> modelled below.
\<close>

datatype py_error =
  KeyError | IndexError | FileNotFoundError | NotADirectoryError | RuntimeError | ReUnsupported

subsection \<open>Strings\<close>

definition newline :: char where
  "newline = CHR 0x0A"

text \<open>\<^verbatim>\<open>s.replace("_", " ")\<close>\<close>

definition replace_underscores :: "string \<Rightarrow> string" where
  "replace_underscores s = map (\<lambda>c. if c = CHR ''_'' then CHR '' '' else c) s"

text \<open>\<^verbatim>\<open>s.split(".")[0]\<close>: the text before the first dot.\<close>

definition split_dot_first :: "string \<Rightarrow> string" where
  "split_dot_first s = takeWhile (\<lambda>c. c \<noteq> CHR ''.'') s"

subsection \<open>Regular expressions\<close>

text \<open>
  Every pattern of the source has the shape \<^verbatim>\<open>(a1|a2|...)$\<close>, where each alternative is a
  sequence of ordinary characters and dots. A dot is not escaped in the source, so it
  stands for any character except a newline. \<^verbatim>\<open>$\<close> matches at the end of the text and also
  just before a newline that ends the text.
\<close>

definition rx_char :: "char \<Rightarrow> char \<Rightarrow> bool" where
  "rx_char p c = (if p = CHR ''.'' then c \<noteq> newline else c = p)"

definition rx_suffix :: "string \<Rightarrow> string \<Rightarrow> bool" where
  "rx_suffix pat s =
     (length pat \<le> length s \<and> list_all2 rx_char pat (drop (length s - length pat) s))"

definition dollar_bodies :: "string \<Rightarrow> string list" where
  "dollar_bodies s = (if s \<noteq> [] \<and> last s = newline then [butlast s, s] else [s])"

text \<open>\<^verbatim>\<open>re.search("(a1|a2|...)$", s)\<close> as a truth value.\<close>

definition re_search_end :: "string list \<Rightarrow> string \<Rightarrow> bool" where
  "re_search_end alts s = list_ex (\<lambda>b. list_ex (\<lambda>p. rx_suffix p b) alts) (dollar_bodies s)"

text \<open>
  \<^verbatim>\<open>re.sub("a$", "", s)\<close> for one alternative of at least two pattern characters (the source
  uses \<^verbatim>\<open>.py\<close> and \<^verbatim>\<open>.mel\<close>): the leftmost match is deleted, and no second match can follow.
\<close>

definition re_sub_end :: "string \<Rightarrow> string \<Rightarrow> string" where
  "re_sub_end pat s =
     (if s \<noteq> [] \<and> last s = newline \<and> rx_suffix pat (butlast s)
      then take (length s - 1 - length pat) s @ [newline]
      else if rx_suffix pat s then take (length s - length pat) s
      else s)"

text \<open>
  The source also formats a tool name into a pattern: \<^verbatim>\<open>"({})(a1|a2)$".format(tool_name)\<close>.
  The name is then read as a regular expression. A name without the characters below is a
  sequence of ordinary characters and dots, and the pattern is the same as
  \<^verbatim>\<open>(name a1|name a2)$\<close>. Other names are outside the model.
\<close>

definition re_meta :: "char \<Rightarrow> bool" where
  "re_meta c = (c \<in> set ''^$*+?{}[]|()'' \<or> c = CHR 0x5C)"

definition re_search_named :: "string \<Rightarrow> string list \<Rightarrow> string \<Rightarrow> py_error + bool" where
  "re_search_named name alts s =
     (if list_ex re_meta name then Inl ReUnsupported
      else Inr (re_search_end (map (\<lambda>a. name @ a) alts) s))"

subsection \<open>Paths (posixpath)\<close>

definition os_path_join :: "string \<Rightarrow> string \<Rightarrow> string" where
  "os_path_join a b =
     (if b \<noteq> [] \<and> hd b = CHR ''/'' then b
      else if a = [] \<or> last a = CHR ''/'' then a @ b
      else a @ ''/'' @ b)"

definition os_path_basename :: "string \<Rightarrow> string" where
  "os_path_basename p = rev (takeWhile (\<lambda>c. c \<noteq> CHR ''/'') (rev p))"

definition rstrip_sep :: "string \<Rightarrow> string" where
  "rstrip_sep s = rev (dropWhile (\<lambda>c. c = CHR ''/'') (rev s))"

definition os_path_dirname :: "string \<Rightarrow> string" where
  "os_path_dirname p =
     (let head = take (length p - length (os_path_basename p)) p
      in if head \<noteq> [] \<and> \<not> list_all (\<lambda>c. c = CHR ''/'') head then rstrip_sep head else head)"

subsection \<open>The file system\<close>

text \<open>
  A path names a file, a directory with its listing in the order \<^verbatim>\<open>os.listdir\<close> returns
  it, or nothing.
\<close>

datatype node = File | Dir "string list"

type_synonym filesystem = "string \<Rightarrow> node option"

definition os_path_exists :: "filesystem \<Rightarrow> string \<Rightarrow> bool" where
  "os_path_exists fs p = (fs p \<noteq> None)"

definition os_path_isdir :: "filesystem \<Rightarrow> string \<Rightarrow> bool" where
  "os_path_isdir fs p = (case fs p of Some (Dir l) \<Rightarrow> True | _ \<Rightarrow> False)"

definition os_listdir :: "filesystem \<Rightarrow> string \<Rightarrow> py_error + string list" where
  "os_listdir fs p =
     (case fs p of
        None \<Rightarrow> Inl FileNotFoundError
      | Some File \<Rightarrow> Inl NotADirectoryError
      | Some (Dir l) \<Rightarrow> Inr l)"

text \<open>\<^verbatim>\<open>os.makedirs(p)\<close>, called only where \<open>p\<close> does not exist: an empty directory appears.\<close>

definition os_makedirs :: "filesystem \<Rightarrow> string \<Rightarrow> filesystem" where
  "os_makedirs fs p = fs(p \<mapsto> Dir [])"

section \<open>The class CustomShelf\<close>

text \<open>
  A handle of the host names a shelf button by its shelf and its position there. Each
  button carries one popup menu, with the same handle.
\<close>

type_synonym handle = "string \<times> nat"

record CustomShelf =
  shelf_directory :: string
  icon_path :: string
  shelf_name :: string
  categories :: "string list"
  popup_tool_dict :: "(string \<times> (string \<times> string list) list) list"
  tool_paths :: "(string \<times> string list) list"
  popup_menus :: "(string \<times> handle) list"
  shelf :: "string option"

subsection \<open>Discovery\<close>

text \<open>The condition of \<open>get_tools_from_dir\<close>, line 55.\<close>

definition is_tool_file :: "string \<Rightarrow> bool" where
  "is_tool_file tool_file =
     (re_search_end [''.py'', ''.mel''] tool_file
      \<and> \<not> re_search_end [''_dcc.py'', ''_dcc.mel''] tool_file)"

definition get_tools_from_dir ::
  "filesystem \<Rightarrow> CustomShelf \<Rightarrow> string \<Rightarrow> string \<Rightarrow> py_error + CustomShelf" where
  "get_tools_from_dir fs self directory category =
     (let category_dir = os_path_join directory category
      in case os_listdir fs category_dir of
           Inl e \<Rightarrow> Inl e
         | Inr files \<Rightarrow>
             Inr (self\<lparr>tool_paths :=
                    AList.update category
                      (map (os_path_join category_dir) (filter is_tool_file files))
                      (tool_paths self)\<rparr>))"

text \<open>The condition of \<open>get_popup_tools_from_dir\<close>, line 73.\<close>

definition is_not_tool_path :: "string \<Rightarrow> bool" where
  "is_not_tool_path item_path =
     (if re_search_end [''_dcc.py'', ''_dcc.mel''] item_path then True
      else \<not> re_search_end [''.py'', ''.mel''] item_path)"

text \<open>
  Lines 72 to 74: the list is changed while a \<^verbatim>\<open>for\<close> loop runs over it. Python's list
  iterator keeps an index \<open>i\<close>, reads the element at \<open>i\<close> of the list as it is now, and stops
  once \<open>i\<close> reaches its length; \<^verbatim>\<open>remove\<close> deletes the first equal element.
\<close>

function remove_while_iterating :: "nat \<Rightarrow> string list \<Rightarrow> string list" where
  "remove_while_iterating i xs =
     (if i < length xs
      then (if is_not_tool_path (xs ! i)
            then remove_while_iterating (Suc i) (remove1 (xs ! i) xs)
            else remove_while_iterating (Suc i) xs)
      else xs)"
  by pat_completeness auto
termination
  by (relation "measure (\<lambda>(i, xs). length xs - i)") (auto simp: length_remove1)

declare remove_while_iterating.simps [simp del]

fun popup_tools_loop ::
  "filesystem \<Rightarrow> string \<Rightarrow> string list \<Rightarrow> (string \<times> string list) list
     \<Rightarrow> py_error + (string \<times> string list) list" where
  "popup_tools_loop fs category_dir [] temp_dict = Inr temp_dict"
| "popup_tools_loop fs category_dir (tool # rest) temp_dict =
     (let tool_path = os_path_join category_dir tool
      in if os_path_isdir fs tool_path
         then (case os_listdir fs tool_path of
                 Inl e \<Rightarrow> Inl e
               | Inr items \<Rightarrow>
                   popup_tools_loop fs category_dir rest
                     (AList.update tool_path
                        (remove_while_iterating 0 (map (os_path_join tool_path) items))
                        temp_dict))
         else popup_tools_loop fs category_dir rest temp_dict)"

definition get_popup_tools_from_dir ::
  "filesystem \<Rightarrow> CustomShelf \<Rightarrow> string \<Rightarrow> string \<Rightarrow> py_error + CustomShelf" where
  "get_popup_tools_from_dir fs self directory category =
     (let category_dir = os_path_join directory category
      in case os_listdir fs category_dir of
           Inl e \<Rightarrow> Inl e
         | Inr tools \<Rightarrow>
             (case popup_tools_loop fs category_dir tools [] of
                Inl e \<Rightarrow> Inl e
              | Inr temp_dict \<Rightarrow>
                  Inr (self\<lparr>popup_tool_dict :=
                         AList.update category temp_dict (popup_tool_dict self)\<rparr>)))"

fun get_all_tools_loop ::
  "filesystem \<Rightarrow> CustomShelf \<Rightarrow> string \<Rightarrow> string list \<Rightarrow> py_error + CustomShelf" where
  "get_all_tools_loop fs self directory [] = Inr self"
| "get_all_tools_loop fs self directory (category # rest) =
     (case get_tools_from_dir fs self directory category of
        Inl e \<Rightarrow> Inl e
      | Inr self1 \<Rightarrow>
          (case get_popup_tools_from_dir fs self1 directory category of
             Inl e \<Rightarrow> Inl e
           | Inr self2 \<Rightarrow> get_all_tools_loop fs self2 directory rest))"

definition get_all_tools :: "filesystem \<Rightarrow> CustomShelf \<Rightarrow> string \<Rightarrow> py_error + CustomShelf" where
  "get_all_tools fs self directory =
     (if \<not> os_path_exists fs directory then Inr self
      else case os_listdir fs directory of
             Inl e \<Rightarrow> Inl e
           | Inr entries \<Rightarrow>
               (let sorted_entries = sort entries;
                    cats = (if ''icons'' \<in> set sorted_entries
                            then remove1 ''icons'' sorted_entries else sorted_entries)
                in get_all_tools_loop fs (self\<lparr>categories := cats\<rparr>) directory cats))"

text \<open>The constructor, lines 25 to 37.\<close>

definition init :: "filesystem \<Rightarrow> string \<Rightarrow> string \<Rightarrow> py_error + CustomShelf" where
  "init fs dir name =
     get_all_tools fs
       \<lparr>shelf_directory = dir, icon_path = os_path_join dir ''icons'', shelf_name = name,
        categories = [], popup_tool_dict = [], tool_paths = [], popup_menus = [],
        shelf = None\<rparr>
       dir"

subsection \<open>The host: maya.cmds\<close>

text \<open>
  The host keeps, for each shelf layout, its children in the order of creation. A shelf
  button holds the arguments it was created with (\<open>None\<close> where the call passes none) and
  the items of its popup menu. Names that do not exist make a command fail.
\<close>

record menu_item =
  mi_label :: string
  mi_sourceType :: string
  mi_command :: string

record shelf_button =
  sb_label :: string
  sb_command :: "string option"
  sb_sourceType :: "string option"
  sb_image :: string
  sb_doubleClickCommand :: "string option"
  sb_menu :: "menu_item list"

datatype widget = ShelfButton shelf_button | Separator

type_synonym host = "(string \<times> widget list) list"

text \<open>\<^verbatim>\<open>cmds.shelfLayout(name, q=True, exists=True)\<close>\<close>

definition cmds_shelfLayout_exists :: "host \<Rightarrow> string \<Rightarrow> bool" where
  "cmds_shelfLayout_exists ui name = (map_of ui name \<noteq> None)"

text \<open>\<^verbatim>\<open>cmds.shelfLayout(name, parent="ShelfLayout")\<close>; the source calls it for a new name only.\<close>

definition cmds_shelfLayout :: "host \<Rightarrow> string \<Rightarrow> py_error + (string \<times> host)" where
  "cmds_shelfLayout ui name =
     (if cmds_shelfLayout_exists ui name then Inl RuntimeError
      else Inr (name, ui @ [(name, [])]))"

definition cmds_deleteUI :: "host \<Rightarrow> string \<Rightarrow> py_error + host" where
  "cmds_deleteUI ui name =
     (if cmds_shelfLayout_exists ui name then Inr (AList.delete name ui)
      else Inl RuntimeError)"

definition add_child :: "host \<Rightarrow> string option \<Rightarrow> widget \<Rightarrow> py_error + (handle \<times> host)" where
  "add_child ui parent w =
     (case parent of
        None \<Rightarrow> Inl RuntimeError
      | Some p \<Rightarrow>
          (case map_of ui p of
             None \<Rightarrow> Inl RuntimeError
           | Some ws \<Rightarrow> Inr ((p, length ws), AList.update p (ws @ [w]) ui)))"

text \<open>\<^verbatim>\<open>cmds.shelfButton(l=..., command=..., image=..., parent=..., ...)\<close>\<close>

definition cmds_shelfButton ::
  "host \<Rightarrow> string option \<Rightarrow> shelf_button \<Rightarrow> py_error + (handle \<times> host)" where
  "cmds_shelfButton ui parent b = add_child ui parent (ShelfButton b)"

text \<open>\<^verbatim>\<open>cmds.separator(..., parent=...)\<close>\<close>

definition cmds_separator :: "host \<Rightarrow> string option \<Rightarrow> py_error + host" where
  "cmds_separator ui parent =
     (case add_child ui parent Separator of Inl e \<Rightarrow> Inl e | Inr (h, ui1) \<Rightarrow> Inr ui1)"

definition button_at :: "host \<Rightarrow> handle \<Rightarrow> shelf_button option" where
  "button_at ui h =
     (case map_of ui (fst h) of
        None \<Rightarrow> None
      | Some ws \<Rightarrow>
          (if snd h < length ws
           then (case ws ! snd h of ShelfButton b \<Rightarrow> Some b | Separator \<Rightarrow> None)
           else None))"

text \<open>\<^verbatim>\<open>cmds.shelfButton(button, q=True, popupMenuArray=True)\<close>\<close>

definition cmds_popupMenuArray :: "host \<Rightarrow> handle \<Rightarrow> py_error + handle list" where
  "cmds_popupMenuArray ui button =
     (case button_at ui button of None \<Rightarrow> Inl RuntimeError | Some b \<Rightarrow> Inr [button])"

text \<open>
  \<^verbatim>\<open>cmds.menuItem(label=..., sourceType=..., parent=..., command=...)\<close>; the result is the
  position of the new item in its menu.
\<close>

definition cmds_menuItem :: "host \<Rightarrow> handle \<Rightarrow> menu_item \<Rightarrow> py_error + (nat \<times> host)" where
  "cmds_menuItem ui parent item =
     (case button_at ui parent of
        None \<Rightarrow> Inl RuntimeError
      | Some b \<Rightarrow>
          (case map_of ui (fst parent) of
             None \<Rightarrow> Inl RuntimeError
           | Some ws \<Rightarrow>
               Inr (length (sb_menu b),
                    AList.update (fst parent)
                      (ws[snd parent := ShelfButton (b\<lparr>sb_menu := sb_menu b @ [item]\<rparr>)]) ui)))"

subsection \<open>Utils\<close>

definition dquote :: char where
  "dquote = CHR 0x22"

definition squote :: char where
  "squote = CHR 0x27"

text \<open>\<^verbatim>\<open>'exec(open("{}").read())'.format(file_path)\<close>\<close>

definition python_command :: "string \<Rightarrow> string" where
  "python_command file_path = ''exec(open('' @ [dquote] @ file_path @ [dquote] @ '').read())''"

text \<open>\<^verbatim>\<open>'import maya.mel; maya.mel.eval(\'source "{}"\')'.format(file_path)\<close>\<close>

definition mel_command :: "string \<Rightarrow> string" where
  "mel_command file_path =
     ''import maya.mel; maya.mel.eval('' @ [squote] @ ''source '' @ [dquote] @ file_path
       @ [dquote] @ [squote] @ '')''"

definition filter_py_mel :: "string \<Rightarrow> string \<times> string" where
  "filter_py_mel file_path =
     (if re_search_end [''.py''] file_path
      then (re_sub_end ''.py'' (os_path_basename file_path), python_command file_path)
      else if re_search_end [''.mel''] file_path
      then (re_sub_end ''.mel'' (os_path_basename file_path), mel_command file_path)
      else ('''', ''''))"

definition find_dcc_command :: "filesystem \<Rightarrow> string \<Rightarrow> string" where
  "find_dcc_command fs script_path =
     (let dcc_script_without_extention =
            os_path_join (os_path_dirname script_path)
              (split_dot_first (os_path_basename script_path));
          mel_script = dcc_script_without_extention @ ''_dcc.mel'';
          python_script = dcc_script_without_extention @ ''_dcc.py''
      in if os_path_exists fs mel_script then mel_script
         else if os_path_exists fs python_script then python_script
         else '''')"

text \<open>
  Lines 223 to 227: the loop of \<open>find_icon\<close>, from the current value of
  \<open>tool_icon_file\<close> to its value after the loop.
\<close>

fun find_icon_loop :: "string \<Rightarrow> string list \<Rightarrow> string \<Rightarrow> py_error + string" where
  "find_icon_loop tool_name [] tool_icon_file = Inr tool_icon_file"
| "find_icon_loop tool_name (icon_file # rest) tool_icon_file =
     (case re_search_named tool_name [''.png'', ''.jpg'', ''jpeg'', ''.svg''] icon_file of
        Inl e \<Rightarrow> Inl e
      | Inr found \<Rightarrow>
          (if found then Inr icon_file else find_icon_loop tool_name rest tool_icon_file))"

definition find_icon ::
  "CustomShelf \<Rightarrow> filesystem \<Rightarrow> string \<Rightarrow> py_error + (string \<times> filesystem)" where
  "find_icon self fs tool_name =
     (let tool_icon_file = ''commandButton.png''
      in if \<not> os_path_exists fs (icon_path self)
         then Inr (tool_icon_file, os_makedirs fs (icon_path self))
         else (case os_listdir fs (icon_path self) of
                 Inl e \<Rightarrow> Inl e
               | Inr icon_files \<Rightarrow>
                   (case find_icon_loop tool_name icon_files tool_icon_file of
                      Inl e \<Rightarrow> Inl e
                    | Inr found_icon_file \<Rightarrow>
                        Inr (os_path_join (icon_path self) found_icon_file, fs))))"

subsection \<open>Rendering\<close>

text \<open>
  A method that changes the object, the file system (\<open>find_icon\<close> may create the icon
  directory) or the host returns the new ones. Lines 104 to 114, the body of the loop of
  \<open>add_buttons_from_path\<close>:
\<close>

definition add_button_from_path ::
  "CustomShelf \<Rightarrow> filesystem \<Rightarrow> host \<Rightarrow> string \<Rightarrow> py_error + (handle \<times> filesystem \<times> host)" where
  "add_button_from_path self fs ui path =
     (let tool_name = fst (filter_py_mel path);
          command1 = snd (filter_py_mel path)
      in case find_icon self fs tool_name of
           Inl e \<Rightarrow> Inl e
         | Inr (icon, fs1) \<Rightarrow>
             (let command2_script = find_dcc_command fs1 path;
                  command2 = snd (filter_py_mel command2_script);
                  spaced_name = replace_underscores tool_name
              in case cmds_shelfButton ui (shelf self)
                        \<lparr>sb_label = spaced_name, sb_command = Some command1,
                         sb_sourceType = None, sb_image = icon,
                         sb_doubleClickCommand = Some command2, sb_menu = []\<rparr> of
                   Inl e \<Rightarrow> Inl e
                 | Inr (button, ui1) \<Rightarrow> Inr (button, fs1, ui1)))"

fun add_buttons_from_path ::
  "CustomShelf \<Rightarrow> filesystem \<Rightarrow> host \<Rightarrow> string list
     \<Rightarrow> py_error + (handle list \<times> filesystem \<times> host)" where
  "add_buttons_from_path self fs ui [] = Inr ([], fs, ui)"
| "add_buttons_from_path self fs ui (path # rest) =
     (case add_button_from_path self fs ui path of
        Inl e \<Rightarrow> Inl e
      | Inr (button, fs1, ui1) \<Rightarrow>
          (case add_buttons_from_path self fs1 ui1 rest of
             Inl e \<Rightarrow> Inl e
           | Inr (shelf_butons, fs2, ui2) \<Rightarrow> Inr (button # shelf_butons, fs2, ui2)))"

text \<open>Lines 129 to 136: the search for the script named like the directory.\<close>

fun find_button_script :: "string \<Rightarrow> string list \<Rightarrow> py_error + string option" where
  "find_button_script tool_name [] = Inr None"
| "find_button_script tool_name (script_path # rest) =
     (case re_search_named tool_name [''.py'', ''.mel''] (os_path_basename script_path) of
        Inl e \<Rightarrow> Inl e
      | Inr found \<Rightarrow>
          (if found then Inr (Some script_path) else find_button_script tool_name rest))"

text \<open>Lines 147 to 155; \<open>menu\<close> is \<^verbatim>\<open>self.popup_menus[tool_name]\<close>, stored just before.\<close>

fun add_menu_items :: "host \<Rightarrow> handle \<Rightarrow> string list \<Rightarrow> py_error + host" where
  "add_menu_items ui menu [] = Inr ui"
| "add_menu_items ui menu (script_path # rest) =
     (if re_search_end [''__init__.py''] script_path then add_menu_items ui menu rest
      else (let filters = filter_py_mel script_path;
                item_name = replace_underscores (fst filters);
                command = snd filters
            in case cmds_menuItem ui menu
                      \<lparr>mi_label = item_name, mi_sourceType = ''python'', mi_command = command\<rparr> of
                 Inl e \<Rightarrow> Inl e
               | Inr (item, ui1) \<Rightarrow> add_menu_items ui1 menu rest))"

text \<open>Lines 139 to 143: the button of a popup tool.\<close>

definition new_popup_button ::
  "CustomShelf \<Rightarrow> filesystem \<Rightarrow> host \<Rightarrow> string \<Rightarrow> string option
     \<Rightarrow> py_error + (handle \<times> filesystem \<times> host)" where
  "new_popup_button self fs ui tool_name button_script_path =
     (case button_script_path of
        Some script_path \<Rightarrow>
          (case add_buttons_from_path self fs ui [script_path] of
             Inl e \<Rightarrow> Inl e
           | Inr (shelf_butons, fs1, ui1) \<Rightarrow>
               (case shelf_butons of
                  [] \<Rightarrow> Inl IndexError
                | button # others \<Rightarrow> Inr (button, fs1, ui1)))
      | None \<Rightarrow>
          (case find_icon self fs tool_name of
             Inl e \<Rightarrow> Inl e
           | Inr (icon, fs1) \<Rightarrow>
               (case cmds_shelfButton ui (shelf self)
                       \<lparr>sb_label = tool_name, sb_command = None, sb_sourceType = None,
                        sb_image = icon, sb_doubleClickCommand = None, sb_menu = []\<rparr> of
                  Inl e \<Rightarrow> Inl e
                | Inr (button, ui1) \<Rightarrow> Inr (button, fs1, ui1))))"

text \<open>
  Lines 126 to 155, the body of the loop of \<open>add_popup_button_from_paths\<close>. The dictionary
  is the caller's object: line 135 changes the list stored in it.
\<close>

definition add_popup_button ::
  "CustomShelf \<Rightarrow> filesystem \<Rightarrow> host \<Rightarrow> (string \<times> string list) list \<Rightarrow> string
     \<Rightarrow> py_error + (CustomShelf \<times> (string \<times> string list) list \<times> filesystem \<times> host)" where
  "add_popup_button self fs ui tool_dict tool_path =
     (let tool_name = os_path_basename tool_path
      in case map_of tool_dict tool_path of
           None \<Rightarrow> Inl KeyError
         | Some script_paths \<Rightarrow>
             (case find_button_script tool_name script_paths of
                Inl e \<Rightarrow> Inl e
              | Inr button_script_path \<Rightarrow>
                  (let remaining =
                         (case button_script_path of
                            None \<Rightarrow> script_paths
                          | Some script_path \<Rightarrow> remove1 script_path script_paths);
                       tool_dict1 = AList.update tool_path remaining tool_dict
                   in case new_popup_button self fs ui tool_name button_script_path of
                        Inl e \<Rightarrow> Inl e
                      | Inr (new_button, fs1, ui1) \<Rightarrow>
                          (case cmds_popupMenuArray ui1 new_button of
                             Inl e \<Rightarrow> Inl e
                           | Inr [] \<Rightarrow> Inl IndexError
                           | Inr (menu # others) \<Rightarrow>
                               (case add_menu_items ui1 menu remaining of
                                  Inl e \<Rightarrow> Inl e
                                | Inr ui2 \<Rightarrow>
                                    Inr (self\<lparr>popup_menus :=
                                               AList.update tool_name menu (popup_menus self)\<rparr>,
                                         tool_dict1, fs1, ui2))))))"

fun add_popup_buttons_loop ::
  "CustomShelf \<Rightarrow> filesystem \<Rightarrow> host \<Rightarrow> (string \<times> string list) list \<Rightarrow> string list
     \<Rightarrow> py_error + (CustomShelf \<times> (string \<times> string list) list \<times> filesystem \<times> host)" where
  "add_popup_buttons_loop self fs ui tool_dict [] = Inr (self, tool_dict, fs, ui)"
| "add_popup_buttons_loop self fs ui tool_dict (tool_path # rest) =
     (case add_popup_button self fs ui tool_dict tool_path of
        Inl e \<Rightarrow> Inl e
      | Inr (self1, tool_dict1, fs1, ui1) \<Rightarrow>
          add_popup_buttons_loop self1 fs1 ui1 tool_dict1 rest)"

definition add_popup_button_from_paths ::
  "CustomShelf \<Rightarrow> filesystem \<Rightarrow> host \<Rightarrow> (string \<times> string list) list
     \<Rightarrow> py_error + (CustomShelf \<times> (string \<times> string list) list \<times> filesystem \<times> host)" where
  "add_popup_button_from_paths self fs ui tool_dict =
     add_popup_buttons_loop self fs ui tool_dict (map fst tool_dict)"

definition add_menu_item ::
  "CustomShelf \<Rightarrow> host \<Rightarrow> string \<Rightarrow> string \<Rightarrow> string \<Rightarrow> string \<Rightarrow> py_error + (nat \<times> host)" where
  "add_menu_item self ui item_name button_name language command =
     (case map_of (popup_menus self) button_name of
        None \<Rightarrow> Inl KeyError
      | Some popup_menu \<Rightarrow>
          cmds_menuItem ui popup_menu
            \<lparr>mi_label = item_name, mi_sourceType = ''python'', mi_command = command\<rparr>)"

definition add_command ::
  "CustomShelf \<Rightarrow> filesystem \<Rightarrow> host \<Rightarrow> string \<Rightarrow> string \<Rightarrow> string option \<Rightarrow> string \<Rightarrow> string
     \<Rightarrow> py_error + (filesystem \<times> host)" where
  "add_command self fs ui tool_name language icon command dcc_command =
     (case (case icon of
              None \<Rightarrow> find_icon self fs tool_name
            | Some given_icon \<Rightarrow> Inr (given_icon, fs)) of
        Inl e \<Rightarrow> Inl e
      | Inr (icon1, fs1) \<Rightarrow>
          (case cmds_shelfButton ui (shelf self)
                  \<lparr>sb_label = tool_name, sb_command = Some command,
                   sb_sourceType = Some language, sb_image = icon1,
                   sb_doubleClickCommand = Some dcc_command, sb_menu = []\<rparr> of
             Inl e \<Rightarrow> Inl e
           | Inr (button, ui1) \<Rightarrow> Inr (fs1, ui1)))"

definition create_separator :: "CustomShelf \<Rightarrow> host \<Rightarrow> py_error + host" where
  "create_separator self ui = cmds_separator ui (shelf self)"

subsection \<open>The shelf\<close>

text \<open>
  Lines 186 to 189. \<^verbatim>\<open>self.popup_tool_dict[category]\<close> is handed to
  \<open>add_popup_button_from_paths\<close> by reference, so what that method changes in it stays
  in the object.
\<close>

fun create_shelf_loop ::
  "CustomShelf \<Rightarrow> filesystem \<Rightarrow> host \<Rightarrow> string list
     \<Rightarrow> py_error + (CustomShelf \<times> filesystem \<times> host)" where
  "create_shelf_loop self fs ui [] = Inr (self, fs, ui)"
| "create_shelf_loop self fs ui (category # rest) =
     (case map_of (tool_paths self) category of
        None \<Rightarrow> Inl KeyError
      | Some paths \<Rightarrow>
          (case add_buttons_from_path self fs ui paths of
             Inl e \<Rightarrow> Inl e
           | Inr (shelf_butons, fs1, ui1) \<Rightarrow>
               (case map_of (popup_tool_dict self) category of
                  None \<Rightarrow> Inl KeyError
                | Some tool_dict \<Rightarrow>
                    (case add_popup_button_from_paths self fs1 ui1 tool_dict of
                       Inl e \<Rightarrow> Inl e
                     | Inr (self1, tool_dict1, fs2, ui2) \<Rightarrow>
                         (let self2 = self1\<lparr>popup_tool_dict :=
                                 AList.update category tool_dict1 (popup_tool_dict self1)\<rparr>
                          in case create_separator self2 ui2 of
                               Inl e \<Rightarrow> Inl e
                             | Inr ui3 \<Rightarrow> create_shelf_loop self2 fs2 ui3 rest)))))"

function create_shelf ::
    "CustomShelf \<Rightarrow> filesystem \<Rightarrow> host \<Rightarrow> py_error + (CustomShelf \<times> filesystem \<times> host)"
  and reload_shelf ::
    "CustomShelf \<Rightarrow> filesystem \<Rightarrow> host \<Rightarrow> py_error + (CustomShelf \<times> filesystem \<times> host)" where
  "create_shelf self fs ui =
     (if \<not> cmds_shelfLayout_exists ui (shelf_name self)
      then (case cmds_shelfLayout ui (shelf_name self) of
              Inl e \<Rightarrow> Inl e
            | Inr (layout, ui1) \<Rightarrow>
                create_shelf_loop (self\<lparr>shelf := Some layout\<rparr>) fs ui1 (categories self))
      else reload_shelf self fs ui)"
| "reload_shelf self fs ui =
     (case cmds_deleteUI ui (shelf_name self) of
        Inl e \<Rightarrow> Inl e
      | Inr ui1 \<Rightarrow> create_shelf self fs ui1)"
  by pat_completeness auto
termination
  by (relation "measure (\<lambda>x. case x of
          Inl (self, fs, ui) \<Rightarrow> (if cmds_shelfLayout_exists ui (shelf_name self) then 2 else 0)
        | Inr (self, fs, ui) \<Rightarrow> 1)")
     (auto simp: cmds_deleteUI_def cmds_shelfLayout_exists_def delete_conv split: if_splits)

declare create_shelf.simps [simp del] reload_shelf.simps [simp del]

subsection \<open>Execution\<close>

text \<open>
  Lines 264 and 265: the object is constructed and \<open>create_shelf\<close> is called on it.
  \<open>execution_and_rebuild\<close> calls \<open>create_shelf\<close> once more on the same object.
\<close>

definition execution ::
  "filesystem \<Rightarrow> host \<Rightarrow> string \<Rightarrow> string \<Rightarrow> py_error + (CustomShelf \<times> filesystem \<times> host)" where
  "execution fs ui dir name =
     (case init fs dir name of Inl e \<Rightarrow> Inl e | Inr self \<Rightarrow> create_shelf self fs ui)"

definition execution_and_rebuild ::
  "filesystem \<Rightarrow> host \<Rightarrow> string \<Rightarrow> string \<Rightarrow> py_error + (CustomShelf \<times> filesystem \<times> host)" where
  "execution_and_rebuild fs ui dir name =
     (case execution fs ui dir name of
        Inl e \<Rightarrow> Inl e
      | Inr (self1, fs1, ui1) \<Rightarrow> create_shelf self1 fs1 ui1)"

section \<open>Observing the host\<close>

text \<open>All menu items that exist in the host, shelf by shelf and button by button.\<close>

definition widget_items :: "widget \<Rightarrow> menu_item list" where
  "widget_items w = (case w of ShelfButton b \<Rightarrow> sb_menu b | Separator \<Rightarrow> [])"

definition shelf_items :: "widget list \<Rightarrow> menu_item list" where
  "shelf_items ws = concat (map widget_items ws)"

fun menu_items_of :: "host \<Rightarrow> menu_item list" where
  "menu_items_of [] = []"
| "menu_items_of ((name, ws) # ui) = shelf_items ws @ menu_items_of ui"


section \<open>The label in the words of the specification\<close>




section \<open>Example directory trees\<close>

text \<open>
  The tree of the end-to-end scenario: one category \<open>rigging\<close> with two scripts, a
  double-click script and the popup tool \<open>align\<close>, and an icon directory.
\<close>

definition example_fs :: filesystem where
  "example_fs = map_of
     [(''shelf'', Dir [''rigging'', ''icons'']),
      (''shelf/icons'', Dir [''snap.png'']),
      (''shelf/rigging'', Dir [''snap.py'', ''snap_dcc.py'', ''my_tool.py'', ''align'']),
      (''shelf/rigging/snap.py'', File),
      (''shelf/rigging/snap_dcc.py'', File),
      (''shelf/rigging/my_tool.py'', File),
      (''shelf/rigging/align'', Dir [''align.py'', ''align_helper.py'']),
      (''shelf/rigging/align/align.py'', File),
      (''shelf/rigging/align/align_helper.py'', File)]"

text \<open>The object that the constructor builds from \<open>example_fs\<close>.\<close>

definition example_self :: CustomShelf where
  "example_self =
     \<lparr>shelf_directory = ''shelf'', icon_path = ''shelf/icons'', shelf_name = ''tools'',
      categories = [''rigging''],
      popup_tool_dict =
        [(''rigging'',
          [(''shelf/rigging/align'',
            [''shelf/rigging/align/align.py'', ''shelf/rigging/align/align_helper.py''])])],
      tool_paths = [(''rigging'', [''shelf/rigging/snap.py'', ''shelf/rigging/my_tool.py''])],
      popup_menus = [], shelf = None\<rparr>"

text \<open>The same object once its shelf layout \<open>tools\<close> exists, and that empty layout.\<close>

definition live_self :: CustomShelf where
  "live_self = example_self\<lparr>shelf := Some ''tools''\<rparr>"

definition empty_shelf :: host where
  "empty_shelf = [(''tools'', [])]"

text \<open>A popup tool with a Python script named like the folder and a MEL script.\<close>

definition mel_dict :: "(string \<times> string list) list" where
  "mel_dict =
     [(''shelf/rigging/align'',
       [''shelf/rigging/align/align.py'', ''shelf/rigging/align/snap_to.mel''])]"

definition mel_shelf :: host where
  "mel_shelf =
     [(''tools'',
       [ShelfButton
          \<lparr>sb_label = ''align'',
           sb_command = Some (python_command ''shelf/rigging/align/align.py''),
           sb_sourceType = None, sb_image = ''shelf/icons/commandButton.png'',
           sb_doubleClickCommand = Some [],
           sb_menu = [\<lparr>mi_label = ''snap to'', mi_sourceType = ''python'',
                        mi_command = mel_command ''shelf/rigging/align/snap_to.mel''\<rparr>]\<rparr>])]"

definition mel_shelf_extended :: host where
  "mel_shelf_extended =
     [(''tools'',
       [ShelfButton
          \<lparr>sb_label = ''align'',
           sb_command = Some (python_command ''shelf/rigging/align/align.py''),
           sb_sourceType = None, sb_image = ''shelf/icons/commandButton.png'',
           sb_doubleClickCommand = Some [],
           sb_menu = [\<lparr>mi_label = ''snap to'', mi_sourceType = ''python'',
                        mi_command = mel_command ''shelf/rigging/align/snap_to.mel''\<rparr>,
                      \<lparr>mi_label = ''extra'', mi_sourceType = ''python'',
                        mi_command = ''print(1)''\<rparr>]\<rparr>])]"




text \<open>A root that holds a plain file next to its category.\<close>

definition stray_file_fs :: filesystem where
  "stray_file_fs = map_of
     [(''shelf'', Dir [''rigging'', ''notes.txt'']),
      (''shelf/rigging'', Dir []),
      (''shelf/notes.txt'', File)]"

text \<open>
  A category with a file \<open>happy\<close> that has no extension, and a popup tool that holds two
  text files before its script.
\<close>

definition skipping_fs :: filesystem where
  "skipping_fs = map_of
     [(''shelf'', Dir [''rigging'']),
      (''shelf/rigging'', Dir [''align'', ''happy'']),
      (''shelf/rigging/happy'', File),
      (''shelf/rigging/align'', Dir [''notes.txt'', ''todo.txt'', ''align.py'']),
      (''shelf/rigging/align/notes.txt'', File),
      (''shelf/rigging/align/todo.txt'', File),
      (''shelf/rigging/align/align.py'', File)]"

text \<open>A popup tool \<open>bar\<close> that holds \<open>zbar.py\<close>, \<open>bar.py\<close> and \<open>baz.py\<close>, listed in this order.\<close>

definition suffix_fs :: filesystem where
  "suffix_fs = map_of
     [(''shelf'', Dir [''rigging'', ''icons'']),
      (''shelf/icons'', Dir []),
      (''shelf/rigging'', Dir [''bar'']),
      (''shelf/rigging/bar'', Dir [''zbar.py'', ''bar.py'', ''baz.py'']),
      (''shelf/rigging/bar/zbar.py'', File),
      (''shelf/rigging/bar/bar.py'', File),
      (''shelf/rigging/bar/baz.py'', File)]"

text \<open>A popup tool \<open>bar\<close> that holds only \<open>baz.py\<close> and \<open>bar.py\<close>, listed in this order.\<close>

definition two_file_fs :: filesystem where
  "two_file_fs = map_of
     [(''shelf'', Dir [''rigging'', ''icons'']),
      (''shelf/icons'', Dir []),
      (''shelf/rigging'', Dir [''bar'']),
      (''shelf/rigging/bar'', Dir [''baz.py'', ''bar.py'']),
      (''shelf/rigging/bar/baz.py'', File),
      (''shelf/rigging/bar/bar.py'', File)]"


text \<open>A script whose name has a dot before the extension, with its double-click script.\<close>

definition dotted_fs :: filesystem where
  "dotted_fs = map_of
     [(''shelf'', Dir [''rigging'', ''icons'']),
      (''shelf/icons'', Dir []),
      (''shelf/rigging'', Dir [''a.b.py'', ''a.b_dcc.py'']),
      (''shelf/rigging/a.b.py'', File),
      (''shelf/rigging/a.b_dcc.py'', File)]"

section \<open>Unfolding the definitions\<close>

lemmas path_defs = os_path_join_def os_path_basename_def os_path_dirname_def rstrip_sep_def
  split_dot_first_def

lemmas fs_defs = os_path_exists_def os_path_isdir_def os_listdir_def os_makedirs_def

lemmas re_defs = re_search_end_def dollar_bodies_def rx_suffix_def rx_char_def newline_def
  re_sub_end_def re_search_named_def re_meta_def

lemmas host_defs = cmds_shelfLayout_exists_def cmds_shelfLayout_def cmds_deleteUI_def
  add_child_def cmds_shelfButton_def cmds_separator_def button_at_def cmds_popupMenuArray_def
  cmds_menuItem_def

lemmas util_defs = filter_py_mel_def find_dcc_command_def find_icon_def replace_underscores_def

lemmas discovery_defs = init_def get_all_tools_def get_tools_from_dir_def
  get_popup_tools_from_dir_def is_tool_file_def is_not_tool_path_def
  remove_while_iterating.simps

lemmas render_defs = add_button_from_path_def new_popup_button_def add_popup_button_def
  add_popup_button_from_paths_def add_menu_item_def create_separator_def create_shelf.simps
  reload_shelf.simps execution_def execution_and_rebuild_def

lemmas eval_defs = discovery_defs fs_defs path_defs re_defs host_defs util_defs render_defs
  Let_def

section \<open>Facts about the library functions\<close>

subsection \<open>Patterns and paths\<close>

lemma rx_suffix_append:
  "length pat = length e \<Longrightarrow> rx_suffix pat (s @ e) = list_all2 rx_char pat e"
  by (simp add: rx_suffix_def)

lemma dollar_bodies_ext:
  "e \<noteq> [] \<Longrightarrow> last e \<noteq> newline \<Longrightarrow> dollar_bodies (s @ e) = [s @ e]"
  by (simp add: dollar_bodies_def)

lemma search_py_py: "re_search_end [''.py''] (q @ ''.py'')"
  by (simp add: re_search_end_def dollar_bodies_ext newline_def rx_suffix_append rx_char_def)

lemma search_py_mel: "\<not> re_search_end [''.py''] (q @ ''.mel'')"
  by (simp add: re_search_end_def dollar_bodies_ext newline_def rx_suffix_def rx_char_def)

lemma search_mel_mel: "re_search_end [''.mel''] (q @ ''.mel'')"
  by (simp add: re_search_end_def dollar_bodies_ext newline_def rx_suffix_append rx_char_def)

lemma basename_ext:
  "CHR ''/'' \<notin> set e \<Longrightarrow> os_path_basename (q @ e) = os_path_basename q @ e"
proof -
  assume "CHR ''/'' \<notin> set e"
  then have "takeWhile (\<lambda>c. c \<noteq> CHR ''/'') (rev e @ rev q)
               = rev e @ takeWhile (\<lambda>c. c \<noteq> CHR ''/'') (rev q)"
    by (intro takeWhile_append2) auto
  then show ?thesis by (simp add: os_path_basename_def)
qed

lemma sub_py: "re_sub_end ''.py'' (n @ ''.py'') = n"
  by (simp add: re_sub_end_def newline_def rx_suffix_append rx_char_def)

lemma sub_mel: "re_sub_end ''.mel'' (n @ ''.mel'') = n"
  by (simp add: re_sub_end_def newline_def rx_suffix_append rx_char_def)

lemma filter_py_mel_py:
  "filter_py_mel (q @ ''.py'') = (os_path_basename q, python_command (q @ ''.py''))"
  by (simp add: filter_py_mel_def search_py_py basename_ext sub_py)

lemma filter_py_mel_mel:
  "filter_py_mel (q @ ''.mel'') = (os_path_basename q, mel_command (q @ ''.mel''))"
  by (simp add: filter_py_mel_def search_py_mel search_mel_mel basename_ext sub_mel)

lemma split_dot_first_stem:
  "CHR ''.'' \<notin> set name \<Longrightarrow> split_dot_first (name @ CHR ''.'' # rest) = name"
  by (auto simp: split_dot_first_def takeWhile_tail)

lemma isdir_listdir: "os_path_isdir fs p \<Longrightarrow> \<exists>l. os_listdir fs p = Inr l"
  by (auto simp: os_path_isdir_def os_listdir_def split: option.splits node.splits)

lemma makedirs_isdir: "os_path_isdir (os_makedirs fs p) p"
  by (simp add: os_makedirs_def os_path_isdir_def)

subsection \<open>The host\<close>

lemma map_of_update_same: "map_of (AList.update k v al) k = Some v"
  by (simp add: update_conv')

lemma add_child_ok:
  "map_of ui sh = Some ws \<Longrightarrow>
   add_child ui (Some sh) w = Inr ((sh, length ws), AList.update sh (ws @ [w]) ui)"
  by (simp add: add_child_def)

lemma button_at_new:
  "button_at (AList.update sh (ws @ [ShelfButton b]) ui) (sh, length ws) = Some b"
  by (simp add: button_at_def map_of_update_same)

lemma popupMenuArray_new:
  "cmds_popupMenuArray (AList.update sh (ws @ [ShelfButton b]) ui) (sh, length ws)
     = Inr [(sh, length ws)]"
  by (simp add: cmds_popupMenuArray_def button_at_new)

lemma items_update_subset:
  "set (menu_items_of (AList.update k v ui)) \<subseteq> set (menu_items_of ui) \<union> set (shelf_items v)"
  by (induction ui rule: menu_items_of.induct) auto

lemma items_update_new:
  "set (shelf_items v) \<subseteq> set (menu_items_of (AList.update k v ui))"
  by (induction ui rule: menu_items_of.induct) auto

lemma items_lookup:
  "map_of ui k = Some ws \<Longrightarrow> set (shelf_items ws) \<subseteq> set (menu_items_of ui)"
  by (induction ui rule: menu_items_of.induct) (auto split: if_splits)

lemma shelf_items_append: "shelf_items (ws @ [w]) = shelf_items ws @ widget_items w"
  by (simp add: shelf_items_def)

lemma shelf_items_member: "w \<in> set ws \<Longrightarrow> set (widget_items w) \<subseteq> set (shelf_items ws)"
  by (auto simp: shelf_items_def)

lemma shelf_items_mono:
  "set ws1 \<subseteq> insert w (set ws) \<Longrightarrow>
   set (shelf_items ws1) \<subseteq> set (widget_items w) \<union> set (shelf_items ws)"
  by (auto simp: shelf_items_def)

lemma add_child_items:
  assumes "add_child ui p w = Inr (h, ui1)"
  shows "set (menu_items_of ui1) \<subseteq> set (menu_items_of ui) \<union> set (widget_items w)"
proof -
  from assms obtain sh ws where p: "p = Some sh" and ws: "map_of ui sh = Some ws"
    and ui1: "ui1 = AList.update sh (ws @ [w]) ui"
    by (auto simp: add_child_def split: option.splits)
  have "set (menu_items_of ui1) \<subseteq> set (menu_items_of ui) \<union> set (shelf_items (ws @ [w]))"
    unfolding ui1 by (rule items_update_subset)
  with items_lookup [OF ws] show ?thesis by (auto simp: shelf_items_append)
qed

lemma cmds_shelfButton_items:
  "cmds_shelfButton ui p b = Inr (h, ui1) \<Longrightarrow> sb_menu b = [] \<Longrightarrow>
   set (menu_items_of ui1) \<subseteq> set (menu_items_of ui)"
  using add_child_items [of ui p "ShelfButton b" h ui1]
  by (simp add: cmds_shelfButton_def widget_items_def)

lemma cmds_menuItem_items:
  assumes "cmds_menuItem ui h item = Inr (n, ui1)"
  shows "item \<in> set (menu_items_of ui1)"
    and "set (menu_items_of ui1) \<subseteq> insert item (set (menu_items_of ui))"
proof -
  from assms obtain b ws where b: "button_at ui h = Some b" and ws: "map_of ui (fst h) = Some ws"
    and ui1: "ui1 = AList.update (fst h)
                      (ws[snd h := ShelfButton (b\<lparr>sb_menu := sb_menu b @ [item]\<rparr>)]) ui"
    by (auto simp: cmds_menuItem_def split: option.splits)
  from b ws have i: "snd h < length ws" and at: "ws ! snd h = ShelfButton b"
    by (auto simp: button_at_def split: if_splits widget.splits)
  let ?w = "ShelfButton (b\<lparr>sb_menu := sb_menu b @ [item]\<rparr>)"
  let ?ws = "ws[snd h := ?w]"
  have new: "?w \<in> set ?ws" using i by (simp add: set_update_memI)
  have "item \<in> set (widget_items ?w)" by (simp add: widget_items_def)
  with shelf_items_member [OF new] have "item \<in> set (shelf_items ?ws)" by blast
  with items_update_new [of ?ws "fst h" ui] show "item \<in> set (menu_items_of ui1)"
    unfolding ui1 by blast
  have "ShelfButton b \<in> set ws" using i at by (metis nth_mem)
  from shelf_items_member [OF this]
  have old: "set (sb_menu b) \<subseteq> set (shelf_items ws)" by (simp add: widget_items_def)
  have "set ?ws \<subseteq> insert ?w (set ws)" by (rule set_update_subset_insert)
  from shelf_items_mono [OF this] old
  have "set (shelf_items ?ws) \<subseteq> insert item (set (shelf_items ws))"
    by (auto simp: widget_items_def)
  with items_lookup [OF ws] items_update_subset [of "fst h" ?ws ui]
  show "set (menu_items_of ui1) \<subseteq> insert item (set (menu_items_of ui))"
    unfolding ui1 by blast
qed

section \<open>Facts about the methods\<close>

lemma add_button_from_path_ok:
  assumes "find_icon self fs (fst (filter_py_mel path)) = Inr (icon, fs1)"
      and "shelf self = Some sh" and "map_of ui sh = Some ws"
  shows "add_button_from_path self fs ui path =
           Inr ((sh, length ws), fs1,
                AList.update sh
                  (ws @ [ShelfButton
                     \<lparr>sb_label = replace_underscores (fst (filter_py_mel path)),
                      sb_command = Some (snd (filter_py_mel path)),
                      sb_sourceType = None, sb_image = icon,
                      sb_doubleClickCommand =
                        Some (snd (filter_py_mel (find_dcc_command fs1 path))),
                      sb_menu = []\<rparr>]) ui)"
  using assms by (simp add: add_button_from_path_def cmds_shelfButton_def add_child_ok)

lemma add_button_from_path_items:
  "add_button_from_path self fs ui path = Inr (h, fs1, ui1) \<Longrightarrow>
   set (menu_items_of ui1) \<subseteq> set (menu_items_of ui)"
  by (auto simp: add_button_from_path_def Let_def split: sum.splits prod.splits
           dest!: cmds_shelfButton_items)

lemma new_popup_button_items:
  "new_popup_button self fs ui tool_name script = Inr (h, fs1, ui1) \<Longrightarrow>
   set (menu_items_of ui1) \<subseteq> set (menu_items_of ui)"
  by (auto simp: new_popup_button_def split: option.splits sum.splits list.splits
           dest!: cmds_shelfButton_items add_button_from_path_items)

lemma add_menu_items_items:
  "add_menu_items ui menu paths = Inr ui1 \<Longrightarrow>
   set (menu_items_of ui1)
     \<subseteq> set (menu_items_of ui) \<union> {item. mi_sourceType item = ''python''}"
proof (induction paths arbitrary: ui)
  case Nil
  then show ?case by simp
next
  case (Cons p ps)
  show ?case
  proof (cases "re_search_end [''__init__.py''] p")
    case True
    with Cons show ?thesis by simp
  next
    case False
    let ?item = "\<lparr>mi_label = replace_underscores (fst (filter_py_mel p)),
                  mi_sourceType = ''python'', mi_command = snd (filter_py_mel p)\<rparr>"
    from False Cons.prems obtain n u2 where
      step: "cmds_menuItem ui menu ?item = Inr (n, u2)" and
      rest: "add_menu_items u2 menu ps = Inr ui1"
      by (auto simp: Let_def split: sum.splits)
    from Cons.IH [OF rest] cmds_menuItem_items(2) [OF step] show ?thesis by auto
  qed
qed

lemma add_popup_button_items:
  assumes "add_popup_button self fs ui tool_dict tool_path = Inr (self1, tool_dict1, fs1, ui1)"
  shows "set (menu_items_of ui1)
           \<subseteq> set (menu_items_of ui) \<union> {item. mi_sourceType item = ''python''}"
proof -
  from assms obtain script h u2 menu rest where
    b: "new_popup_button self fs ui (os_path_basename tool_path) script = Inr (h, fs1, u2)" and
    m: "add_menu_items u2 menu rest = Inr ui1"
    by (auto simp: add_popup_button_def Let_def split: option.splits sum.splits list.splits)
  from new_popup_button_items [OF b] add_menu_items_items [OF m] show ?thesis by blast
qed

lemma add_popup_buttons_loop_items:
  "add_popup_buttons_loop self fs ui tool_dict ks = Inr (self1, tool_dict1, fs1, ui1) \<Longrightarrow>
   set (menu_items_of ui1)
     \<subseteq> set (menu_items_of ui) \<union> {item. mi_sourceType item = ''python''}"
proof (induction ks arbitrary: self fs ui tool_dict)
  case Nil
  then show ?case by simp
next
  case (Cons k ks)
  from Cons.prems obtain s2 d2 f2 u2 where
    step: "add_popup_button self fs ui tool_dict k = Inr (s2, d2, f2, u2)" and
    rest: "add_popup_buttons_loop s2 f2 u2 d2 ks = Inr (self1, tool_dict1, fs1, ui1)"
    by (auto split: sum.splits)
  from Cons.IH [OF rest] add_popup_button_items [OF step] show ?case by blast
qed

lemma get_tools_from_dir_menus:
  "get_tools_from_dir fs self d c = Inr self1 \<Longrightarrow> popup_menus self1 = popup_menus self"
  by (auto simp: get_tools_from_dir_def Let_def split: sum.splits)

lemma get_popup_tools_from_dir_menus:
  "get_popup_tools_from_dir fs self d c = Inr self1 \<Longrightarrow> popup_menus self1 = popup_menus self"
  by (auto simp: get_popup_tools_from_dir_def Let_def split: sum.splits)

lemma get_all_tools_loop_menus:
  "get_all_tools_loop fs self d cs = Inr self1 \<Longrightarrow> popup_menus self1 = popup_menus self"
proof (induction cs arbitrary: self)
  case Nil
  then show ?case by simp
next
  case (Cons c cs)
  then show ?case
    by (auto split: sum.splits dest!: get_tools_from_dir_menus get_popup_tools_from_dir_menus)
qed

lemma get_all_tools_menus:
  "get_all_tools fs self d = Inr self1 \<Longrightarrow> popup_menus self1 = popup_menus self"
  by (auto simp: get_all_tools_def Let_def split: if_splits sum.splits
           dest!: get_all_tools_loop_menus)

lemma init_menus: "init fs d n = Inr self \<Longrightarrow> popup_menus self = []"
  by (auto simp: init_def dest!: get_all_tools_menus)

lemma add_popup_button_menus:
  "add_popup_button self fs ui tool_dict tool_path = Inr (self1, tool_dict1, fs1, ui1) \<Longrightarrow>
   \<exists>menu. popup_menus self1 = AList.update (os_path_basename tool_path) menu (popup_menus self)"
  by (fastforce simp: add_popup_button_def Let_def split: option.splits sum.splits list.splits)

lemma add_popup_button_keys:
  "add_popup_button self fs ui tool_dict tool_path = Inr (self1, tool_dict1, fs1, ui1) \<Longrightarrow>
   fst ` set (popup_menus self1)
     = insert (os_path_basename tool_path) (fst ` set (popup_menus self))"
proof -
  assume "add_popup_button self fs ui tool_dict tool_path = Inr (self1, tool_dict1, fs1, ui1)"
  then obtain menu where
    "popup_menus self1 = AList.update (os_path_basename tool_path) menu (popup_menus self)"
    using add_popup_button_menus by blast
  then show ?thesis
    using dom_update [of "os_path_basename tool_path" menu "popup_menus self"] by simp
qed

lemma add_popup_buttons_loop_keys:
  "add_popup_buttons_loop self fs ui tool_dict ks = Inr (self1, tool_dict1, fs1, ui1) \<Longrightarrow>
   fst ` set (popup_menus self1) = fst ` set (popup_menus self) \<union> os_path_basename ` set ks"
proof (induction ks arbitrary: self fs ui tool_dict)
  case Nil
  then show ?case by simp
next
  case (Cons k ks)
  from Cons.prems obtain s2 d2 f2 u2 where
    step: "add_popup_button self fs ui tool_dict k = Inr (s2, d2, f2, u2)" and
    rest: "add_popup_buttons_loop s2 f2 u2 d2 ks = Inr (self1, tool_dict1, fs1, ui1)"
    by (auto split: sum.splits)
  from Cons.IH [OF rest] add_popup_button_keys [OF step] show ?case by auto
qed

subsection \<open>What a successful rendering leaves on the shelf\<close>
















section \<open>Discovery (claims C1 and C2)\<close>

lemma get_all_tools_missing_root:
  "\<not> os_path_exists fs directory \<Longrightarrow> get_all_tools fs self directory = Inr self"
  by (simp add: get_all_tools_def)

lemma popup_tools_loop_ok: "\<exists>d. popup_tools_loop fs category_dir tools temp_dict = Inr d"
proof (induction tools arbitrary: temp_dict)
  case Nil
  then show ?case by simp
next
  case (Cons t ts)
  show ?case
  proof (cases "os_path_isdir fs (os_path_join category_dir t)")
    case True
    from isdir_listdir [OF this]
    obtain l where "os_listdir fs (os_path_join category_dir t) = Inr l" ..
    with True Cons.IH show ?thesis by (simp add: Let_def)
  next
    case False
    with Cons.IH show ?thesis by (simp add: Let_def)
  qed
qed

lemma category_step_ok:
  assumes "os_path_isdir fs (os_path_join directory c)"
  shows "\<exists>self2. get_tools_from_dir fs self directory c
                   = Inr (self\<lparr>tool_paths := tool_paths self2\<rparr>)
                \<and> get_popup_tools_from_dir fs (self\<lparr>tool_paths := tool_paths self2\<rparr>)
                     directory c = Inr self2
                \<and> categories self2 = categories self"
proof -
  from isdir_listdir [OF assms]
  obtain l where l: "os_listdir fs (os_path_join directory c) = Inr l" ..
  obtain d where d: "popup_tools_loop fs (os_path_join directory c) l [] = Inr d"
    using popup_tools_loop_ok by blast
  show ?thesis
    by (rule exI [of _ "self\<lparr>tool_paths := AList.update c
                      (map (os_path_join (os_path_join directory c)) (filter is_tool_file l))
                      (tool_paths self),
                    popup_tool_dict := AList.update c d (popup_tool_dict self)\<rparr>"])
       (simp add: get_tools_from_dir_def get_popup_tools_from_dir_def l d)
qed

lemma get_all_tools_loop_ok:
  "\<forall>c\<in>set cs. os_path_isdir fs (os_path_join directory c) \<Longrightarrow>
   \<exists>self1. get_all_tools_loop fs self directory cs = Inr self1
          \<and> categories self1 = categories self"
proof (induction cs arbitrary: self)
  case Nil
  then show ?case by simp
next
  case (Cons c cs)
  then have "os_path_isdir fs (os_path_join directory c)" by simp
  from category_step_ok [OF this, of self] obtain self2 where
    a: "get_tools_from_dir fs self directory c = Inr (self\<lparr>tool_paths := tool_paths self2\<rparr>)" and
    b: "get_popup_tools_from_dir fs (self\<lparr>tool_paths := tool_paths self2\<rparr>) directory c
          = Inr self2" and
    c: "categories self2 = categories self" by blast
  from Cons.prems have "\<forall>c\<in>set cs. os_path_isdir fs (os_path_join directory c)" by simp
  from Cons.IH [OF this, of self2] c show ?case by (simp add: a b)
qed

text \<open>
  Where every entry of the root other than \<open>icons\<close> is a directory, the categories are
  the sorted entries without \<open>icons\<close>.
\<close>

lemma discovery_categories:
  assumes "os_listdir fs directory = Inr entries"
      and "\<forall>c\<in>set entries. c \<noteq> ''icons'' \<longrightarrow> os_path_isdir fs (os_path_join directory c)"
      and "distinct entries"
  shows "\<exists>self1. get_all_tools fs self directory = Inr self1
           \<and> categories self1 = remove1 ''icons'' (sort entries)"
proof -
  have ex: "os_path_exists fs directory"
    using assms(1) by (auto simp: os_path_exists_def os_listdir_def split: option.splits)
  let ?cats = "remove1 ''icons'' (sort entries)"
  have "distinct (sort entries)" using assms(3) by simp
  then have "set ?cats = set entries - {''icons''}" by simp
  with assms(2) have "\<forall>c\<in>set ?cats. os_path_isdir fs (os_path_join directory c)" by auto
  from get_all_tools_loop_ok [OF this, of "self\<lparr>categories := ?cats\<rparr>"]
  show ?thesis by (auto simp: get_all_tools_def ex assms(1) Let_def remove1_idem)
qed

lemma init_example: "init example_fs ''shelf'' ''tools'' = Inr example_self"
  by (simp add: example_fs_def example_self_def discovery_defs fs_defs path_defs re_defs)

text \<open>
  Claim C1: for a root that exists, discovery produces as categories exactly the immediate
  subdirectories of the root, sorted, without \<open>icons\<close>; for a root that does not exist it
  leaves the categories empty and raises nothing.

  \<open>get_all_tools\<close> takes every entry of the root as a category and lists it without asking
  whether it is a directory (\<open>get_popup_tools_from_dir\<close> does ask, one level below). The
  root of \<open>stray_file_fs\<close> holds the directory \<open>rigging\<close> and the file \<open>notes.txt\<close>: the
  constructor ends in \<open>NotADirectoryError\<close>, where the claim has the one category
  \<open>rigging\<close>.
\<close>

theorem discovery_file_in_root:
  "os_listdir stray_file_fs ''shelf'' = Inr [''rigging'', ''notes.txt'']
   \<and> os_path_isdir stray_file_fs ''shelf/rigging''
   \<and> \<not> os_path_isdir stray_file_fs ''shelf/notes.txt''
   \<and> init stray_file_fs ''shelf'' ''tools'' = Inl NotADirectoryError"
  by (simp add: stray_file_fs_def discovery_defs fs_defs path_defs re_defs)

text \<open>
  Claim C2: the flat tool list of a category and the file list of each popup tool hold
  exactly the files of the directory whose name ends in \<open>.py\<close> or \<open>.mel\<close> and not in
  \<open>_dcc.py\<close> or \<open>_dcc.mel\<close>.

  In \<open>skipping_fs\<close> the flat list holds \<open>happy\<close>, because the dot of the pattern stands for
  any character, and the list of the popup tool \<open>align\<close> holds \<open>todo.txt\<close>, because the
  loop of lines 72 to 74 removes \<open>notes.txt\<close> from the list it runs over and so never
  looks at the element that follows it.
\<close>

theorem filters_keep_other_files:
  "map_sum id tool_paths (init skipping_fs ''shelf'' ''tools'')
     = Inr [(''rigging'', [''shelf/rigging/happy''])]
   \<and> map_sum id popup_tool_dict (init skipping_fs ''shelf'' ''tools'')
     = Inr [(''rigging'',
             [(''shelf/rigging/align'',
               [''shelf/rigging/align/todo.txt'', ''shelf/rigging/align/align.py''])])]"
  by (simp add: skipping_fs_def discovery_defs fs_defs path_defs re_defs)

section \<open>Popup buttons and rebuilding (claims C3 and C4)\<close>

text \<open>
  With only \<open>baz.py\<close> and \<open>bar.py\<close> in the folder \<open>bar\<close>, the button runs \<open>bar.py\<close> and
  the menu has the one item \<open>baz\<close>.
\<close>

lemma popup_button_two_files:
  "map_sum id (snd \<circ> snd) (execution two_file_fs [] ''shelf'' ''tools'') =
     Inr [(''tools'',
           [ShelfButton
              \<lparr>sb_label = ''bar'',
               sb_command = Some (python_command ''shelf/rigging/bar/bar.py''),
               sb_sourceType = None, sb_image = ''shelf/icons/commandButton.png'',
               sb_doubleClickCommand = Some [],
               sb_menu = [\<lparr>mi_label = ''baz'', mi_sourceType = ''python'',
                            mi_command = python_command ''shelf/rigging/bar/baz.py''\<rparr>]\<rparr>,
            Separator])]"
  by (simp add: two_file_fs_def eval_defs)

text \<open>
  Claim C3: for a popup tool \<open>bar\<close> whose file list holds \<open>bar.py\<close> and \<open>baz.py\<close>, the
  button's command is the command of \<open>bar.py\<close>, \<open>bar.py\<close> gets no menu item, \<open>baz.py\<close>
  gets exactly one, and the file chosen for the button has the tool name of the folder.

  Line 133 searches the file name for the folder name followed by an extension, anywhere
  in it. In \<open>suffix_fs\<close> the folder \<open>bar\<close> lists \<open>zbar.py\<close> first: the button runs
  \<open>zbar.py\<close>, whose tool name is \<open>zbar\<close>, and \<open>bar.py\<close> becomes a menu item.
\<close>

theorem popup_button_suffix_match:
  "map_sum id (snd \<circ> snd) (execution suffix_fs [] ''shelf'' ''tools'') =
     Inr [(''tools'',
           [ShelfButton
              \<lparr>sb_label = ''zbar'',
               sb_command = Some (python_command ''shelf/rigging/bar/zbar.py''),
               sb_sourceType = None, sb_image = ''shelf/icons/commandButton.png'',
               sb_doubleClickCommand = Some [],
               sb_menu = [\<lparr>mi_label = ''bar'', mi_sourceType = ''python'',
                            mi_command = python_command ''shelf/rigging/bar/bar.py''\<rparr>,
                          \<lparr>mi_label = ''baz'', mi_sourceType = ''python'',
                            mi_command = python_command ''shelf/rigging/bar/baz.py''\<rparr>]\<rparr>,
            Separator])]"
  by (simp add: suffix_fs_def eval_defs)

text \<open>Building over a shelf that exists deletes it and builds again.\<close>

lemma create_shelf_rebuilds:
  "cmds_shelfLayout_exists ui (shelf_name self) \<Longrightarrow>
   create_shelf self fs ui = create_shelf self fs (AList.delete (shelf_name self) ui)"
  by (simp add: create_shelf.simps [of self fs ui] reload_shelf.simps cmds_deleteUI_def)

section \<open>Flat buttons (claims C5 and C6)\<close>

text \<open>
  On a shelf that exists, and where the icon is found, a path \<open>q @ ext\<close> with one of the
  two extensions gets a button: its label comes from the base name of \<open>q\<close>, and
  \<open>python_command\<close> or \<open>mel_command\<close> places the path unchanged between the quotes of
  its command.
\<close>

lemma add_button_from_path_script:
  assumes "ext = ''.py'' \<or> ext = ''.mel''"
      and "find_icon self fs (os_path_basename q) = Inr (icon, fs1)"
      and "shelf self = Some sh" and "map_of ui sh = Some ws"
  shows "os_path_basename (q @ ext) = os_path_basename q @ ext
         \<and> add_button_from_path self fs ui (q @ ext) =
             Inr ((sh, length ws), fs1,
                  AList.update sh
                    (ws @ [ShelfButton
                       \<lparr>sb_label = replace_underscores (os_path_basename q),
                        sb_command =
                          Some (if ext = ''.py'' then python_command (q @ ext)
                                else mel_command (q @ ext)),
                        sb_sourceType = None, sb_image = icon,
                        sb_doubleClickCommand =
                          Some (snd (filter_py_mel (find_dcc_command fs1 (q @ ext)))),
                        sb_menu = []\<rparr>]) ui)"
proof -
  have f: "filter_py_mel (q @ ext) =
             (os_path_basename q,
              if ext = ''.py'' then python_command (q @ ext) else mel_command (q @ ext))"
    using assms(1) by (auto simp: filter_py_mel_py filter_py_mel_mel)
  have b: "os_path_basename (q @ ext) = os_path_basename q @ ext"
    using assms(1) by (auto simp: basename_ext)
  have i: "find_icon self fs (fst (filter_py_mel (q @ ext))) = Inr (icon, fs1)"
    using assms(2) by (simp add: f)
  show ?thesis
    unfolding add_button_from_path_ok [OF i assms(3) assms(4)] by (simp add: f b)
qed



text \<open>
  For a script whose name has no dot before its extension, \<open>find_dcc_command\<close> looks in
  the directory of the script for that name followed by \<open>_dcc.mel\<close>, then by \<open>_dcc.py\<close>,
  and the command of what it finds becomes the double-click command.
\<close>

lemma find_dcc_command_plain:
  assumes "os_path_basename p = name @ CHR ''.'' # rest" and "CHR ''.'' \<notin> set name"
  shows "find_dcc_command fs p =
           (if os_path_exists fs (os_path_join (os_path_dirname p) name @ ''_dcc.mel'')
            then os_path_join (os_path_dirname p) name @ ''_dcc.mel''
            else if os_path_exists fs (os_path_join (os_path_dirname p) name @ ''_dcc.py'')
            then os_path_join (os_path_dirname p) name @ ''_dcc.py''
            else '''')"
  by (simp add: find_dcc_command_def assms(1) split_dot_first_stem [OF assms(2)])

lemma dcc_commands:
  "snd (filter_py_mel (x @ ''_dcc.mel'')) = mel_command (x @ ''_dcc.mel'')"
  "snd (filter_py_mel (x @ ''_dcc.py'')) = python_command (x @ ''_dcc.py'')"
  "snd (filter_py_mel '''') = ''''"
  using filter_py_mel_mel [of "x @ ''_dcc''"] filter_py_mel_py [of "x @ ''_dcc''"]
  by (simp_all add: filter_py_mel_def re_defs)

text \<open>
  Claim C6: for a script \<open>foo.py\<close>, if \<open>foo_dcc.py\<close> or \<open>foo_dcc.mel\<close> exists next to it,
  the double-click command of the button is the command of that script; if neither exists,
  it is the empty string and nothing is raised.

  Line 202 cuts the file name at its first dot, not at its extension. In \<open>dotted_fs\<close>
  the script \<open>a.b.py\<close> has the double-click script \<open>a.b_dcc.py\<close> next to it, but the
  method looks for \<open>a_dcc.mel\<close> and \<open>a_dcc.py\<close>: the double-click command is empty.
\<close>

theorem dcc_missed_for_dotted_name:
  "os_path_exists dotted_fs ''shelf/rigging/a.b_dcc.py''
   \<and> map_sum id (snd \<circ> snd) (execution dotted_fs [] ''shelf'' ''tools'') =
     Inr [(''tools'',
           [ShelfButton
              \<lparr>sb_label = ''a.b'',
               sb_command = Some (python_command ''shelf/rigging/a.b.py''),
               sb_sourceType = None, sb_image = ''shelf/icons/commandButton.png'',
               sb_doubleClickCommand = Some [], sb_menu = []\<rparr>,
            Separator])]"
  by (simp add: dotted_fs_def eval_defs)

section \<open>Icons (claim C7)\<close>

lemma find_icon_missing_dir:
  "\<not> os_path_exists fs (icon_path self) \<Longrightarrow>
   find_icon self fs tool_name = Inr (''commandButton.png'', os_makedirs fs (icon_path self))"
  by (simp add: find_icon_def)

lemma find_icon_loop_no_match:
  "\<not> list_ex re_meta tool_name \<Longrightarrow>
   \<forall>f\<in>set files.
      \<not> re_search_end (map (\<lambda>a. tool_name @ a) [''.png'', ''.jpg'', ''jpeg'', ''.svg'']) f \<Longrightarrow>
   find_icon_loop tool_name files dflt = Inr dflt"
  by (induction files) (simp_all add: re_search_named_def)

lemma find_icon_no_match:
  assumes "os_listdir fs (icon_path self) = Inr files"
      and "\<not> list_ex re_meta tool_name"
      and "\<forall>f\<in>set files.
             \<not> re_search_end
                 (map (\<lambda>a. tool_name @ a) [''.png'', ''.jpg'', ''jpeg'', ''.svg'']) f"
  shows "find_icon self fs tool_name
           = Inr (os_path_join (icon_path self) ''commandButton.png'', fs)"
proof -
  have "os_path_exists fs (icon_path self)"
    using assms(1) by (auto simp: os_path_exists_def os_listdir_def split: option.splits)
  then show ?thesis
    using find_icon_loop_no_match [OF assms(2,3)] by (simp add: find_icon_def assms(1))
qed

text \<open>
  Claim C7: for a tool name without a matching file in an icon directory that exists,
  icon resolution returns the default icon identifier; if the icon directory does not
  exist, it is created and the default icon identifier is returned; nothing is raised.

  The default is \<open>commandButton.png\<close>, and line 220 returns it as it is when the directory
  is missing (\<open>find_icon_missing_dir\<close>). When the directory exists and no file matches,
  line 229 joins the directory to it: for the tool \<open>my_tool\<close> of the example the result is
  \<open>shelf/icons/commandButton.png\<close>, the path of a file that does not exist.
\<close>

theorem icon_fallback_is_joined_path:
  "os_listdir example_fs (icon_path example_self) = Inr [''snap.png'']
   \<and> find_icon example_self example_fs ''my_tool''
       = Inr (''shelf/icons/commandButton.png'', example_fs)
   \<and> \<not> os_path_exists example_fs ''shelf/icons/commandButton.png''"
  by (simp add: example_fs_def example_self_def eval_defs)
section \<open>Popup menus (claims C8, C9 and C10)\<close>

text \<open>
  Claim C8: every menu item created while popup buttons are rendered is tagged
  \<open>python\<close>, whatever the extension of its file, and \<open>add_menu_item\<close> tags its item
  \<open>python\<close> whatever language the caller names.

  After \<open>add_popup_button_from_paths\<close> every menu item of the host either was there
  before or has the source type \<open>python\<close>. After \<open>add_menu_item\<close> the host has the new item
  with the source type \<open>python\<close>, for every \<open>language\<close>, and no other new item.
\<close>

theorem menu_items_tagged_python:
  "(add_popup_button_from_paths self fs ui tool_dict = Inr (self1, tool_dict1, fs1, ui1) \<longrightarrow>
      set (menu_items_of ui1)
        \<subseteq> set (menu_items_of ui) \<union> {item. mi_sourceType item = ''python''})
   \<and> (add_menu_item self2 ui2 item_name button_name language command = Inr (n, ui3) \<longrightarrow>
        \<lparr>mi_label = item_name, mi_sourceType = ''python'', mi_command = command\<rparr>
          \<in> set (menu_items_of ui3)
        \<and> set (menu_items_of ui3)
            \<subseteq> insert \<lparr>mi_label = item_name, mi_sourceType = ''python'', mi_command = command\<rparr>
                (set (menu_items_of ui2)))"
proof (intro conjI impI)
  assume "add_popup_button_from_paths self fs ui tool_dict = Inr (self1, tool_dict1, fs1, ui1)"
  then show "set (menu_items_of ui1)
        \<subseteq> set (menu_items_of ui) \<union> {item. mi_sourceType item = ''python''}"
    unfolding add_popup_button_from_paths_def by (rule add_popup_buttons_loop_items)
next
  let ?item = "\<lparr>mi_label = item_name, mi_sourceType = ''python'', mi_command = command\<rparr>"
  assume a: "add_menu_item self2 ui2 item_name button_name language command = Inr (n, ui3)"
  then obtain menu where "cmds_menuItem ui2 menu ?item = Inr (n, ui3)"
    by (auto simp: add_menu_item_def split: option.splits)
  from cmds_menuItem_items [OF this]
  show "?item \<in> set (menu_items_of ui3)"
    and "set (menu_items_of ui3) \<subseteq> insert ?item (set (menu_items_of ui2))"
    by auto
qed

text \<open>
  The popup tool of \<open>mel_dict\<close> holds a MEL script: its menu item is tagged \<open>python\<close>,
  and so is the item added with the language \<open>mel\<close>.
\<close>

theorem menu_items_tagged_python_witness:
  "add_popup_button_from_paths live_self example_fs empty_shelf mel_dict =
     Inr (live_self\<lparr>popup_menus := [(''align'', (''tools'', 0))]\<rparr>,
          [(''shelf/rigging/align'', [''shelf/rigging/align/snap_to.mel''])],
          example_fs, mel_shelf)
   \<and> set (menu_items_of mel_shelf)
       \<subseteq> set (menu_items_of empty_shelf) \<union> {item. mi_sourceType item = ''python''}
   \<and> menu_items_of mel_shelf =
       [\<lparr>mi_label = ''snap to'', mi_sourceType = ''python'',
         mi_command = mel_command ''shelf/rigging/align/snap_to.mel''\<rparr>]
   \<and> add_menu_item (live_self\<lparr>popup_menus := [(''align'', (''tools'', 0))]\<rparr>) mel_shelf
         ''extra'' ''align'' ''mel'' ''print(1)''
       = Inr (1, mel_shelf_extended)
   \<and> \<lparr>mi_label = ''extra'', mi_sourceType = ''python'', mi_command = ''print(1)''\<rparr>
       \<in> set (menu_items_of mel_shelf_extended)
   \<and> set (menu_items_of mel_shelf_extended)
       \<subseteq> insert \<lparr>mi_label = ''extra'', mi_sourceType = ''python'', mi_command = ''print(1)''\<rparr>
           (set (menu_items_of mel_shelf))"
proof -
  have a: "add_popup_button_from_paths live_self example_fs empty_shelf mel_dict =
     Inr (live_self\<lparr>popup_menus := [(''align'', (''tools'', 0))]\<rparr>,
          [(''shelf/rigging/align'', [''shelf/rigging/align/snap_to.mel''])],
          example_fs, mel_shelf)"
    by (simp add: live_self_def example_self_def example_fs_def empty_shelf_def mel_dict_def
        mel_shelf_def eval_defs)
  have b: "add_menu_item (live_self\<lparr>popup_menus := [(''align'', (''tools'', 0))]\<rparr>) mel_shelf
         ''extra'' ''align'' ''mel'' ''print(1)''
       = Inr (1, mel_shelf_extended)"
    by (simp add: mel_shelf_def mel_shelf_extended_def add_menu_item_def host_defs)
  have c: "menu_items_of mel_shelf =
       [\<lparr>mi_label = ''snap to'', mi_sourceType = ''python'',
         mi_command = mel_command ''shelf/rigging/align/snap_to.mel''\<rparr>]"
    by (simp add: mel_shelf_def shelf_items_def widget_items_def)
  from menu_items_tagged_python
         [where self = live_self and fs = example_fs and ui = empty_shelf
            and tool_dict = mel_dict
            and ?self1.0 = "live_self\<lparr>popup_menus := [(''align'', (''tools'', 0))]\<rparr>"
            and ?tool_dict1.0 = "[(''shelf/rigging/align'', [''shelf/rigging/align/snap_to.mel''])]"
            and ?fs1.0 = example_fs and ?ui1.0 = mel_shelf
            and ?self2.0 = "live_self\<lparr>popup_menus := [(''align'', (''tools'', 0))]\<rparr>"
            and ?ui2.0 = mel_shelf and item_name = "''extra''" and button_name = "''align''"
            and language = "''mel''" and command = "''print(1)''" and n = 1
            and ?ui3.0 = mel_shelf_extended]
       a b c
  show ?thesis by simp
qed

text \<open>
  \<open>add_popup_button\<close> is what \<open>add_popup_button_from_paths\<close> does for one folder. On a
  shelf that exists, and where the icon is found, a folder with an empty list adds one
  button to the shelf: its label is the folder name, it has neither command nor
  double-click command, its image is the icon found and its menu is empty.
\<close>

lemma add_popup_button_empty:
  assumes "map_of tool_dict tool_path = Some []"
      and "find_icon self fs (os_path_basename tool_path) = Inr (icon, fs1)"
      and "shelf self = Some sh" and "map_of ui sh = Some ws"
  shows "add_popup_button self fs ui tool_dict tool_path =
           Inr (self\<lparr>popup_menus :=
                       AList.update (os_path_basename tool_path) (sh, length ws)
                         (popup_menus self)\<rparr>,
                tool_dict, fs1,
                AList.update sh
                  (ws @ [ShelfButton
                     \<lparr>sb_label = os_path_basename tool_path, sb_command = None,
                      sb_sourceType = None, sb_image = icon,
                      sb_doubleClickCommand = None, sb_menu = []\<rparr>]) ui)"
proof -
  have d: "AList.update tool_path [] tool_dict = tool_dict"
    using assms(1) by (rule update_triv)
  have n: "new_popup_button self fs ui (os_path_basename tool_path) None =
             Inr ((sh, length ws), fs1,
                  AList.update sh
                    (ws @ [ShelfButton
                       \<lparr>sb_label = os_path_basename tool_path, sb_command = None,
                        sb_sourceType = None, sb_image = icon,
                        sb_doubleClickCommand = None, sb_menu = []\<rparr>]) ui)"
    using assms(2,3,4) by (simp add: new_popup_button_def cmds_shelfButton_def add_child_ok)
  show ?thesis
    by (simp add: add_popup_button_def Let_def assms(1) d n popupMenuArray_new)
qed



text \<open>
  Claim C10: the registry of popup menus is filled only while popup buttons are rendered,
  under the name of the popup tool, and \<open>add_menu_item\<close> with a button name that was
  never registered fails with a key error.

  The constructor leaves the registry empty; \<open>add_popup_button_from_paths\<close> adds to its
  keys the base names of the folders it renders; no other method returns a changed object.
  A name that is not a key makes \<open>add_menu_item\<close> end in \<open>KeyError\<close>, with no item made.
\<close>

theorem registry_keys_and_key_error:
  "(init fs dir name = Inr self0 \<longrightarrow> popup_menus self0 = [])
   \<and> (add_popup_button_from_paths self fs1 ui tool_dict = Inr (self1, tool_dict1, fs2, ui1) \<longrightarrow>
        fst ` set (popup_menus self1)
          = fst ` set (popup_menus self) \<union> os_path_basename ` fst ` set tool_dict)
   \<and> (map_of (popup_menus self2) button_name = None \<longrightarrow>
        add_menu_item self2 ui2 item_name button_name language command = Inl KeyError)"
proof (intro conjI impI)
  assume "init fs dir name = Inr self0"
  then show "popup_menus self0 = []" by (rule init_menus)
next
  assume "add_popup_button_from_paths self fs1 ui tool_dict = Inr (self1, tool_dict1, fs2, ui1)"
  then have "add_popup_buttons_loop self fs1 ui tool_dict (map fst tool_dict)
               = Inr (self1, tool_dict1, fs2, ui1)"
    by (simp add: add_popup_button_from_paths_def)
  from add_popup_buttons_loop_keys [OF this]
  show "fst ` set (popup_menus self1)
          = fst ` set (popup_menus self) \<union> os_path_basename ` fst ` set tool_dict"
    by simp
next
  assume "map_of (popup_menus self2) button_name = None"
  then show "add_menu_item self2 ui2 item_name button_name language command = Inl KeyError"
    by (simp add: add_menu_item_def)
qed

text \<open>
  The example: the constructed object has no menus, rendering \<open>mel_dict\<close> registers
  \<open>align\<close>, and before that \<open>add_menu_item\<close> for \<open>align\<close> fails.
\<close>

theorem registry_keys_and_key_error_witness:
  "init example_fs ''shelf'' ''tools'' = Inr example_self
   \<and> popup_menus example_self = []
   \<and> add_popup_button_from_paths live_self example_fs empty_shelf mel_dict =
       Inr (live_self\<lparr>popup_menus := [(''align'', (''tools'', 0))]\<rparr>,
            [(''shelf/rigging/align'', [''shelf/rigging/align/snap_to.mel''])],
            example_fs, mel_shelf)
   \<and> fst ` set (popup_menus (live_self\<lparr>popup_menus := [(''align'', (''tools'', 0))]\<rparr>))
       = fst ` set (popup_menus live_self) \<union> os_path_basename ` fst ` set mel_dict
   \<and> map_of (popup_menus live_self) ''align'' = None
   \<and> add_menu_item live_self empty_shelf ''extra'' ''align'' ''mel'' ''print(1)''
       = Inl KeyError"
proof -
  have a: "add_popup_button_from_paths live_self example_fs empty_shelf mel_dict =
     Inr (live_self\<lparr>popup_menus := [(''align'', (''tools'', 0))]\<rparr>,
          [(''shelf/rigging/align'', [''shelf/rigging/align/snap_to.mel''])],
          example_fs, mel_shelf)"
    by (simp add: live_self_def example_self_def example_fs_def empty_shelf_def mel_dict_def
        mel_shelf_def eval_defs)
  have k: "map_of (popup_menus live_self) ''align'' = None"
    by (simp add: live_self_def example_self_def)
  from registry_keys_and_key_error
         [where fs = example_fs and dir = "''shelf''" and name = "''tools''"
            and ?self0.0 = example_self and self = live_self and ?fs1.0 = example_fs
            and ui = empty_shelf and tool_dict = mel_dict
            and ?self1.0 = "live_self\<lparr>popup_menus := [(''align'', (''tools'', 0))]\<rparr>"
            and ?tool_dict1.0 = "[(''shelf/rigging/align'', [''shelf/rigging/align/snap_to.mel''])]"
            and ?fs2.0 = example_fs and ?ui1.0 = mel_shelf
            and ?self2.0 = live_self and button_name = "''align''" and ?ui2.0 = empty_shelf
            and item_name = "''extra''" and language = "''mel''" and command = "''print(1)''"]
       init_example a k
  show ?thesis by simp
qed

end
